theory Spec2Isabelle
  imports
    Complex_Main
    "HOL-Library.Multiset"
    "HOL-Library.Char_ord"
    "HOL-Library.List_Lexorder"
begin

section \<open>Python values and built-ins used by the client\<close>

text \<open>
  Strings are \<^typ>\<open>string\<close>; with \<open>Char_ord\<close> and \<open>List_Lexorder\<close> they are
  ordered lexicographically by character code, a proper prefix first, which is the
  order of Python's \<^verbatim>\<open>str.__lt__\<close>.
\<close>

text \<open>
  \<^verbatim>\<open>sorted(xs, key=f)\<close>: Python's sort is stable, and a stable sort has only one
  possible result, so the insertion sort of the library computes the same list.
\<close>

definition py_sorted :: "('a \<Rightarrow> 'k::linorder) \<Rightarrow> 'a list \<Rightarrow> 'a list" where
  "py_sorted key xs = sort_key key xs"

text \<open>\<^verbatim>\<open>sep.join(xs)\<close> on a list of strings.\<close>

fun join :: "string \<Rightarrow> string list \<Rightarrow> string" where
  "join sep [] = []"
| "join sep [x] = x"
| "join sep (x # y # ys) = x @ sep @ join sep (y # ys)"

section \<open>Entities shown by \<^verbatim>\<open>coriolisclient/cli/replicas.py\<close>\<close>

text \<open>
  An execution and a replica, with the attributes the formatters read. The creation
  timestamp is any linearly ordered type (the service sends ISO-8601 strings, which
  Python compares as strings).
\<close>

record 't execution =
  exec_id :: string
  status :: string
  exec_created_at :: 't

record 't replica =
  replica_id :: string
  instances :: "string list"
  executions :: "'t execution list"
  created_at :: 't

subsection \<open>\<^verbatim>\<open>ReplicaFormatter\<close>\<close>

definition ReplicaFormatter_columns :: "string list" where
  "ReplicaFormatter_columns = [''ID'', ''Instances'', ''Last tasks execution'', ''Created'']"

definition ReplicaFormatter_get_sorted_list ::
  "('t::linorder) replica list \<Rightarrow> 't replica list" where
  "ReplicaFormatter_get_sorted_list obj_list = py_sorted created_at obj_list"

text \<open>\<^verbatim>\<open>"%(id)s %(status)s" % execution.to_dict()\<close>\<close>

definition format_execution :: "'t execution \<Rightarrow> string" where
  "format_execution e = exec_id e @ '' '' @ status e"

text \<open>
  \<^verbatim>\<open>sorted(...)[-1]\<close> is only evaluated on a non-empty list, where it is the last
  element.
\<close>

definition ReplicaFormatter_format_last_execution :: "('t::linorder) replica \<Rightarrow> string" where
  "ReplicaFormatter_format_last_execution obj =
     (if executions obj \<noteq> []
      then format_execution (last (py_sorted exec_created_at (executions obj)))
      else [])"

text \<open>The row of the list view; the timestamp column is kept as the value it is.\<close>

definition ReplicaFormatter_get_formatted_data ::
  "('t::linorder) replica \<Rightarrow> string \<times> string \<times> string \<times> 't" where
  "ReplicaFormatter_get_formatted_data obj =
     (replica_id obj,
      join [CHR 0x0A] (instances obj),
      ReplicaFormatter_format_last_execution obj,
      created_at obj)"

subsection \<open>\<^verbatim>\<open>ReplicaDetailFormatter\<close>\<close>

text \<open>\<^verbatim>\<open>os.linesep\<close> depends on the platform, so it is a parameter \<open>linesep\<close>.\<close>

definition ReplicaDetailFormatter_format_instances ::
  "string \<Rightarrow> 't replica \<Rightarrow> string" where
  "ReplicaDetailFormatter_format_instances linesep obj =
     join linesep (py_sorted (\<lambda>s. s) (instances obj))"

definition ReplicaDetailFormatter_format_executions ::
  "string \<Rightarrow> ('t::linorder) execution list \<Rightarrow> string" where
  "ReplicaDetailFormatter_format_executions linesep execs =
     join linesep (map format_execution (py_sorted exec_created_at execs))"

section \<open>JSON values, errors and collaborators\<close>

text \<open>
  The values that \<^verbatim>\<open>json.loads\<close> returns and \<^verbatim>\<open>json.dumps\<close> accepts. A float is
  a finite rational or one of the three special values that Python's decoder accepts.
  A dict is the list of its items in insertion order. A tuple is a value that
  \<^verbatim>\<open>json.dumps\<close> accepts (it writes an array) and \<^verbatim>\<open>json.loads\<close> never returns
  (it reads an array as a list).
\<close>

datatype pyfloat = Finite rat | PosInfinity | NegInfinity | NaN

datatype pyval =
    PNone
  | PBool bool
  | PInt int
  | PFloat pyfloat
  | PStr string
  | PList "pyval list"
  | PTuple "pyval list"
  | PDict "(string \<times> pyval) list"

text \<open>Truth value testing, as \<^verbatim>\<open>if x:\<close> does it.\<close>

fun truthy :: "pyval \<Rightarrow> bool" where
  "truthy PNone = False"
| "truthy (PBool b) = b"
| "truthy (PInt i) = (i \<noteq> 0)"
| "truthy (PFloat f) = (f \<noteq> Finite 0)"
| "truthy (PStr s) = (s \<noteq> [])"
| "truthy (PList xs) = (xs \<noteq> [])"
| "truthy (PTuple xs) = (xs \<noteq> [])"
| "truthy (PDict kvs) = (kvs \<noteq> [])"

text \<open>
  The exceptions. \<open>ValueError\<close> of \<open>create_endpoint\<close> keeps the provider names that its
  message lists; \<open>ClientError\<close> is whatever a remote call raises.
\<close>

datatype error =
    ValueError "string list"
  | TypeError
  | KeyError string
  | AttributeError
  | JSONDecodeError
  | Exception string
  | ClientError string

text \<open>\<^verbatim>\<open>d[k] = v\<close> on a dict: the value of an existing key is replaced in place.\<close>

fun dict_set :: "(string \<times> pyval) list \<Rightarrow> string \<Rightarrow> pyval \<Rightarrow> (string \<times> pyval) list" where
  "dict_set [] k v = [(k, v)]"
| "dict_set ((k', v') # d) k v = (if k' = k then (k, v) # d else (k', v') # dict_set d k v)"

text \<open>\<^verbatim>\<open>d.get(k)\<close> on a dict: \<open>None\<close> for a missing key.\<close>

definition dict_get :: "(string \<times> pyval) list \<Rightarrow> string \<Rightarrow> pyval" where
  "dict_get d k = (case map_of d k of None \<Rightarrow> PNone | Some v \<Rightarrow> v)"

text \<open>\<^verbatim>\<open>k in s\<close> on two strings: \<open>k\<close> occurs in \<open>s\<close> as a contiguous run.\<close>

primrec substring :: "string \<Rightarrow> string \<Rightarrow> bool" where
  "substring k [] = (k = [])"
| "substring k (c # cs) = (take (length k) (c # cs) = k \<or> substring k cs)"

text \<open>
  \<^verbatim>\<open>k in x\<close> for a string \<open>k\<close>: key membership on a dict, element membership on a
  list or a tuple, substring test on a string, \<open>TypeError\<close> on everything else.
\<close>

fun py_in :: "string \<Rightarrow> pyval \<Rightarrow> error + bool" where
  "py_in k (PDict kvs) = Inr (k \<in> set (map fst kvs))"
| "py_in k (PList xs) = Inr (PStr k \<in> set xs)"
| "py_in k (PTuple xs) = Inr (PStr k \<in> set xs)"
| "py_in k (PStr s) = Inr (substring k s)"
| "py_in k _ = Inl TypeError"

text \<open>
  \<^verbatim>\<open>x[k]\<close> for a string \<open>k\<close>: lookup on a dict (\<open>KeyError\<close> when missing); a string,
  a list or a tuple takes integer indices only and the other values are not
  subscriptable.
\<close>

fun py_getitem :: "pyval \<Rightarrow> string \<Rightarrow> error + pyval" where
  "py_getitem (PDict kvs) k = (case map_of kvs k of None \<Rightarrow> Inl (KeyError k) | Some v \<Rightarrow> Inr v)"
| "py_getitem _ k = Inl TypeError"

text \<open>\<^verbatim>\<open>"%s" % x\<close> for a string or \<open>None\<close>.\<close>

definition py_str :: "string option \<Rightarrow> string" where
  "py_str x = (case x of None \<Rightarrow> ''None'' | Some s \<Rightarrow> s)"

text \<open>
  An endpoint object is the dict of its attributes (\<open>to_dict()\<close>). Every call to a remote
  collaborator is recorded: a run starts from the calls made so far and returns them
  extended. What a collaborator answers may depend on the calls made before, which is
  how a stateful service is described.
\<close>

type_synonym endpoint = "(string \<times> pyval) list"

datatype call =
    Providers_list
  | Secrets_store string string string
  | Secrets_get pyval
  | Endpoints_create string string pyval string
  | Endpoints_get endpoint
  | Endpoints_validate_connection endpoint
  | Replicas_update string pyval bool

fun is_secrets_store :: "call \<Rightarrow> bool" where
  "is_secrets_store (Secrets_store n p c) = True"
| "is_secrets_store _ = False"

text \<open>
  The Coriolis client: \<open>providers.list().to_dict()\<close>, \<open>endpoints.create\<close>,
  \<open>endpoints.get\<close> and \<open>endpoints.validate_connection\<close>.
\<close>

record coriolis_client =
  providers_list :: "call list \<Rightarrow> error + (string \<times> pyval) list"
  endpoints_create :: "string \<Rightarrow> string \<Rightarrow> pyval \<Rightarrow> string \<Rightarrow> call list \<Rightarrow> error + endpoint"
  endpoints_get :: "endpoint \<Rightarrow> call list \<Rightarrow> error + endpoint"
  endpoints_validate_connection :: "endpoint \<Rightarrow> call list \<Rightarrow> error + (bool \<times> string option)"

text \<open>
  The Barbican client. \<open>secrets_store name payload content_type\<close> is
  \<open>secrets.create(name=..., payload=..., payload_content_type=...).store()\<close> and
  returns the reference of the new secret; \<open>secrets_payload ref\<close> is
  \<open>secrets.get(ref).payload\<close>.
\<close>

record barbican_client =
  secrets_store :: "string \<Rightarrow> string \<Rightarrow> string \<Rightarrow> call list \<Rightarrow> error + string"
  secrets_payload :: "pyval \<Rightarrow> call list \<Rightarrow> error + string"

section \<open>\<^verbatim>\<open>samples/endpoint_samples.py\<close>\<close>

text \<open>
  \<^verbatim>\<open>json.dumps\<close> and \<^verbatim>\<open>json.loads\<close> are the parameters \<open>dumps\<close> and \<open>loads\<close>.
  The name of the secret is always passed by the one caller, so its default is left out.
\<close>

definition store_barbican_secret_for_coriolis ::
  "barbican_client \<Rightarrow> (pyval \<Rightarrow> error + string) \<Rightarrow> pyval \<Rightarrow> string \<Rightarrow> call list
     \<Rightarrow> (error + string) \<times> call list" where
  "store_barbican_secret_for_coriolis barbican dumps secret_info name tr =
     (case dumps secret_info of
        Inl e \<Rightarrow> (Inl e, tr)
      | Inr payload \<Rightarrow>
          (secrets_store barbican name payload ''application/json'' tr,
           tr @ [Secrets_store name payload ''application/json'']))"

definition create_endpoint ::
  "coriolis_client \<Rightarrow> (pyval \<Rightarrow> error + string) \<Rightarrow> string \<Rightarrow> string \<Rightarrow> pyval
     \<Rightarrow> barbican_client option \<Rightarrow> string \<Rightarrow> call list \<Rightarrow> (error + endpoint) \<times> call list" where
  "create_endpoint coriolis dumps name platform_type connection_info barbican description tr =
     (let tr1 = tr @ [Providers_list] in
      case providers_list coriolis tr of
        Inl e \<Rightarrow> (Inl e, tr1)
      | Inr providers_dict \<Rightarrow>
          if platform_type \<notin> set (map fst providers_dict)
          then (Inl (ValueError (map fst providers_dict)), tr1)
          else
            (case
               (case barbican of
                  None \<Rightarrow> (Inr connection_info, tr1)
                | Some b \<Rightarrow>
                    (case store_barbican_secret_for_coriolis b dumps connection_info
                            (''Coriolis Endpoint '' @ name) tr1 of
                       (Inl e, tr2) \<Rightarrow> (Inl e, tr2)
                     | (Inr secret_ref, tr2) \<Rightarrow>
                         (Inr (PDict [(''secret_ref'', PStr secret_ref)]), tr2)))
             of
               (Inl e, tr2) \<Rightarrow> (Inl e, tr2)
             | (Inr connection_info', tr2) \<Rightarrow>
                 (endpoints_create coriolis name platform_type connection_info' description tr2,
                  tr2 @ [Endpoints_create name platform_type connection_info' description])))"

text \<open>
  In \<^verbatim>\<open>barbican.secrets.get(endpoint_conn_info['secret_ref'])\<close> Python evaluates
  \<^verbatim>\<open>barbican.secrets.get\<close> before the argument.
\<close>

definition get_endpoint_connection_info ::
  "coriolis_client \<Rightarrow> barbican_client option \<Rightarrow> (string \<Rightarrow> error + pyval) \<Rightarrow> endpoint
     \<Rightarrow> call list \<Rightarrow> (error + pyval) \<times> call list" where
  "get_endpoint_connection_info coriolis barbican loads endpoint tr =
     (let tr1 = tr @ [Endpoints_get endpoint] in
      case endpoints_get coriolis endpoint tr of
        Inl e \<Rightarrow> (Inl e, tr1)
      | Inr ep \<Rightarrow>
          (let endpoint_conn_info = dict_get ep ''connection_info'' in
           case py_in ''secret_ref'' endpoint_conn_info of
             Inl e \<Rightarrow> (Inl e, tr1)
           | Inr found \<Rightarrow>
               if \<not> found then (Inr endpoint_conn_info, tr1)
               else
                 (case barbican of
                    None \<Rightarrow> (Inl AttributeError, tr1)
                  | Some b \<Rightarrow>
                      (case py_getitem endpoint_conn_info ''secret_ref'' of
                         Inl e \<Rightarrow> (Inl e, tr1)
                       | Inr secret_ref \<Rightarrow>
                           (case secrets_payload b secret_ref tr1 of
                              Inl e \<Rightarrow> (Inl e, tr1 @ [Secrets_get secret_ref])
                            | Inr payload \<Rightarrow> (loads payload, tr1 @ [Secrets_get secret_ref]))))))"

definition validate_endpoint ::
  "coriolis_client \<Rightarrow> endpoint \<Rightarrow> bool \<Rightarrow> call list
     \<Rightarrow> (error + bool \<times> string option) \<times> call list" where
  "validate_endpoint coriolis endpoint raise_on_error tr =
     (let tr1 = tr @ [Endpoints_validate_connection endpoint] in
      case endpoints_validate_connection coriolis endpoint tr of
        Inl e \<Rightarrow> (Inl e, tr1)
      | Inr (is_valid, error_msg) \<Rightarrow>
          if raise_on_error \<and> \<not> is_valid
          then (Inl (Exception (''Endpoint validation failed: '' @ py_str error_msg)), tr1)
          else (Inr (is_valid, error_msg), tr1))"

section \<open>\<^verbatim>\<open>UpdateReplica\<close> of \<^verbatim>\<open>coriolisclient/cli/replicas.py\<close>\<close>

text \<open>
  The parsed arguments: an option that was not given is \<open>None\<close>. The options that
  \<open>cli_utils.add_storage_mappings_arguments_to_parser\<close> adds are not in the sources at
  hand; they are the field \<open>storage_args\<close>, of any type. The attributes \<open>id\<close> and
  \<open>notes\<close> are \<open>arg_id\<close> and \<open>arg_notes\<close>.
\<close>

record 'sa update_args =
  arg_id :: string
  destination_environment :: "string option"
  source_environment :: "string option"
  network_map :: "string option"
  arg_notes :: "string option"
  force :: bool
  storage_args :: 'sa

text \<open>
  \<^verbatim>\<open>x = None\<close>, then \<^verbatim>\<open>if args.x: x = json.loads(args.x)\<close>: the pattern of the
  three JSON options.
\<close>

definition loads_if_set :: "(string \<Rightarrow> error + pyval) \<Rightarrow> string option \<Rightarrow> error + pyval" where
  "loads_if_set loads a =
     (case a of
        None \<Rightarrow> Inr PNone
      | Some s \<Rightarrow> if s \<noteq> [] then loads s else Inr PNone)"

text \<open>
  The dict \<open>updated_properties\<close> that \<open>take_action\<close> builds. The helper
  \<open>cli_utils.get_storage_mappings_dict_from_args\<close> is not in the sources at hand and is
  the parameter \<open>get_storage_mappings_dict_from_args\<close>.
\<close>

definition UpdateReplica_updated_properties ::
  "(string \<Rightarrow> error + pyval) \<Rightarrow> ('sa update_args \<Rightarrow> error + pyval) \<Rightarrow> 'sa update_args
     \<Rightarrow> error + (string \<times> pyval) list" where
  "UpdateReplica_updated_properties loads get_storage_mappings_dict_from_args args =
     (case loads_if_set loads (destination_environment args) of
        Inl e \<Rightarrow> Inl e
      | Inr destination_env \<Rightarrow>
     (case loads_if_set loads (source_environment args) of
        Inl e \<Rightarrow> Inl e
      | Inr source_env \<Rightarrow>
     (case loads_if_set loads (network_map args) of
        Inl e \<Rightarrow> Inl e
      | Inr net_map \<Rightarrow>
     (case get_storage_mappings_dict_from_args args of
        Inl e \<Rightarrow> Inl e
      | Inr storage_mappings \<Rightarrow>
          (let up0 = [];
               up1 = (if truthy destination_env
                      then dict_set up0 ''destination_environment'' destination_env else up0);
               up2 = (if truthy source_env
                      then dict_set up1 ''source_environment'' source_env else up1);
               up3 = (if truthy storage_mappings
                      then dict_set up2 ''storage_mappings'' storage_mappings else up2);
               up4 = (if truthy net_map
                      then dict_set up3 ''network_map'' net_map else up3);
               up5 = (case arg_notes args of
                        None \<Rightarrow> up4
                      | Some s \<Rightarrow> if s \<noteq> [] then dict_set up4 ''notes'' (PStr s) else up4)
           in Inr up5)))))"

text \<open>
  \<open>replicas_update\<close> is \<open>coriolis.replicas.update\<close> and \<open>get_formatted_entity\<close> the
  formatter of \<open>replica_executions\<close>; neither is in the sources at hand.
\<close>

definition UpdateReplica_take_action ::
  "(string \<Rightarrow> error + pyval) \<Rightarrow> ('sa update_args \<Rightarrow> error + pyval)
     \<Rightarrow> (string \<Rightarrow> pyval \<Rightarrow> bool \<Rightarrow> call list \<Rightarrow> error + 'ex) \<Rightarrow> ('ex \<Rightarrow> error + 'row)
     \<Rightarrow> 'sa update_args \<Rightarrow> call list \<Rightarrow> (error + 'row) \<times> call list" where
  "UpdateReplica_take_action loads get_storage_mappings_dict_from_args replicas_update
       get_formatted_entity args tr =
     (case UpdateReplica_updated_properties loads get_storage_mappings_dict_from_args args of
        Inl e \<Rightarrow> (Inl e, tr)
      | Inr updated_properties \<Rightarrow>
          (let tr1 = tr @ [Replicas_update (arg_id args) (PDict updated_properties) (force args)] in
           case replicas_update (arg_id args) (PDict updated_properties) (force args) tr of
             Inl e \<Rightarrow> (Inl e, tr1)
           | Inr execution \<Rightarrow> (get_formatted_entity execution, tr1)))"

section \<open>Sample data\<close>

text \<open>Three executions created on consecutive days, and one created together with the first.\<close>

definition ex1 :: "string execution" where
  "ex1 = \<lparr>exec_id = ''e1'', status = ''COMPLETED'', exec_created_at = ''2019-03-01T10:00:00''\<rparr>"

definition ex2 :: "string execution" where
  "ex2 = \<lparr>exec_id = ''e2'', status = ''ERROR'', exec_created_at = ''2019-03-02T10:00:00''\<rparr>"

definition ex3 :: "string execution" where
  "ex3 = \<lparr>exec_id = ''e3'', status = ''RUNNING'', exec_created_at = ''2019-03-03T10:00:00''\<rparr>"

definition ex1b :: "string execution" where
  "ex1b = \<lparr>exec_id = ''e1b'', status = ''CANCELED'', exec_created_at = ''2019-03-01T10:00:00''\<rparr>"

definition replica_three :: "string replica" where
  "replica_three =
     \<lparr>replica_id = ''r1'', instances = [''vm-b'', ''VM-c'', ''vm-a''],
      executions = [ex3, ex1, ex2], created_at = ''2019-02-27T08:30:00''\<rparr>"

definition replica_none :: "string replica" where
  "replica_none =
     \<lparr>replica_id = ''r0'', instances = [], executions = [], created_at = ''2019-02-20T08:30:00''\<rparr>"

definition replica_tie :: "string replica" where
  "replica_tie =
     \<lparr>replica_id = ''r2'', instances = [''vm1''],
      executions = [ex1, ex1b], created_at = ''2019-02-20T08:30:00''\<rparr>"

lemmas sample_defs =
  ex1_def ex2_def ex3_def ex1b_def replica_three_def replica_none_def replica_tie_def

text \<open>
  A connection info, the JSON text that stands for it, and a \<open>dumps\<close> and a \<open>loads\<close>
  that know a few texts only.
\<close>

definition sample_connection_info :: pyval where
  "sample_connection_info =
     PDict [(''region'', PStr ''eu-frankfurt-1''), (''user'', PStr ''ocid1.user.oc1'')]"

definition sample_payload :: string where
  "sample_payload =
     concat [''{'', [CHR 0x22], ''region'', [CHR 0x22], '': '', [CHR 0x22], ''eu-frankfurt-1'',
             [CHR 0x22], '', '', [CHR 0x22], ''user'', [CHR 0x22], '': '', [CHR 0x22],
             ''ocid1.user.oc1'', [CHR 0x22], ''}'']"

text \<open>
  A connection info that holds a tuple, the JSON text that \<^verbatim>\<open>json.dumps\<close> writes for
  it, and the value that \<^verbatim>\<open>json.loads\<close> reads from that text.
\<close>

definition tuple_connection_info :: pyval where
  "tuple_connection_info =
     PDict [(''region'', PStr ''eu-frankfurt-1''), (''ports'', PTuple [PInt 22, PInt 443])]"

definition tuple_payload :: string where
  "tuple_payload =
     concat [''{'', [CHR 0x22], ''region'', [CHR 0x22], '': '', [CHR 0x22], ''eu-frankfurt-1'',
             [CHR 0x22], '', '', [CHR 0x22], ''ports'', [CHR 0x22], '': [22, 443]}'']"

definition tuple_decoded :: pyval where
  "tuple_decoded =
     PDict [(''region'', PStr ''eu-frankfurt-1''), (''ports'', PList [PInt 22, PInt 443])]"

definition sample_dumps :: "pyval \<Rightarrow> error + string" where
  "sample_dumps v =
     (if v = sample_connection_info then Inr sample_payload
      else if v = tuple_connection_info \<or> v = tuple_decoded then Inr tuple_payload
      else Inl TypeError)"

definition sample_loads :: "string \<Rightarrow> error + pyval" where
  "sample_loads s =
     (if s = sample_payload then Inr sample_connection_info
      else if s = tuple_payload then Inr tuple_decoded
      else if s = ''{}'' then Inr (PDict [])
      else if s = ''[1, 2]'' then Inr (PList [PInt 1, PInt 2])
      else if s = ''null'' then Inr PNone
      else Inl JSONDecodeError)"

text \<open>
  A service that lists two providers, answers a create with the new endpoint, a get
  with the endpoint asked for, and finds only \<open>oci\<close> endpoints valid.
\<close>

definition sample_coriolis :: coriolis_client where
  "sample_coriolis =
     \<lparr>providers_list = (\<lambda>h. Inr [(''oci'', PDict []), (''openstack'', PDict [])]),
      endpoints_create = (\<lambda>n p ci d h.
         Inr [(''id'', PStr ''ep-1''), (''name'', PStr n), (''type'', PStr p),
              (''connection_info'', ci), (''description'', PStr d)]),
      endpoints_get = (\<lambda>e h. Inr e),
      endpoints_validate_connection = (\<lambda>e h.
         if dict_get e ''type'' = PStr ''oci'' then Inr (True, None)
         else Inr (False, Some ''unreachable''))\<rparr>"

text \<open>
  A vault that names a secret after its label and, asked for a reference, looks for the
  latest store under it among the calls made so far.
\<close>

definition sample_href :: "string \<Rightarrow> string" where
  "sample_href name = ''http://barbican/v1/secrets/'' @ name"

fun sample_last_stored :: "pyval \<Rightarrow> call list \<Rightarrow> string option" where
  "sample_last_stored ref [] = None"
| "sample_last_stored ref (c # cs) =
     (case sample_last_stored ref cs of
        Some p \<Rightarrow> Some p
      | None \<Rightarrow>
          (case c of
             Secrets_store n p ct \<Rightarrow> if PStr (sample_href n) = ref then Some p else None
           | _ \<Rightarrow> None))"

definition sample_barbican :: barbican_client where
  "sample_barbican =
     \<lparr>secrets_store = (\<lambda>n p ct h. Inr (sample_href n)),
      secrets_payload = (\<lambda>ref h.
         case sample_last_stored ref h of
           None \<Rightarrow> Inl (ClientError ''secret not found'')
         | Some p \<Rightarrow> Inr p)\<rparr>"

text \<open>The call of \<open>main\<close>, with the sample connection info, on a fresh history.\<close>

definition sample_created :: "(error + endpoint) \<times> call list" where
  "sample_created =
     create_endpoint sample_coriolis sample_dumps ''Coriolis Testing Endpoint'' ''oci''
       sample_connection_info (Some sample_barbican) ''Created by Coriolis sample scripts'' []"

definition sample_secret_ref :: pyval where
  "sample_secret_ref = PStr (sample_href ''Coriolis Endpoint Coriolis Testing Endpoint'')"

definition sample_endpoint :: endpoint where
  "sample_endpoint =
     [(''id'', PStr ''ep-1''), (''name'', PStr ''Coriolis Testing Endpoint''),
      (''type'', PStr ''oci''),
      (''connection_info'', PDict [(''secret_ref'', sample_secret_ref)]),
      (''description'', PStr ''Created by Coriolis sample scripts'')]"

text \<open>The same call with the connection info that holds a tuple.\<close>

definition tuple_created :: "(error + endpoint) \<times> call list" where
  "tuple_created =
     create_endpoint sample_coriolis sample_dumps ''Coriolis Testing Endpoint'' ''oci''
       tuple_connection_info (Some sample_barbican) ''Created by Coriolis sample scripts'' []"

definition plain_endpoint :: endpoint where
  "plain_endpoint =
     [(''id'', PStr ''ep-2''), (''name'', PStr ''Plain''), (''type'', PStr ''openstack''),
      (''connection_info'', sample_connection_info), (''description'', PStr [])]"

text \<open>Arguments of two \<open>replica update\<close> invocations, and stand-ins for the absent code.\<close>

definition sample_update_args :: "unit update_args" where
  "sample_update_args =
     \<lparr>arg_id = ''r1'', destination_environment = Some ''[1, 2]'', source_environment = None,
      network_map = Some ''null'', arg_notes = Some ''resized'', force = True,
      storage_args = ()\<rparr>"

definition falsy_update_args :: "unit update_args" where
  "falsy_update_args =
     \<lparr>arg_id = ''r1'', destination_environment = Some ''{}'', source_environment = None,
      network_map = None, arg_notes = Some [], force = False, storage_args = ()\<rparr>"

definition no_storage_mappings :: "unit update_args \<Rightarrow> error + pyval" where
  "no_storage_mappings args = Inr (PDict [])"

definition sample_replicas_update ::
  "string \<Rightarrow> pyval \<Rightarrow> bool \<Rightarrow> call list \<Rightarrow> error + string execution" where
  "sample_replicas_update i up f h = Inr ex1"

definition sample_get_formatted_entity :: "string execution \<Rightarrow> error + string" where
  "sample_get_formatted_entity e = Inr (format_execution e)"

section \<open>Properties of the formatters\<close>

subsection \<open>Helper facts on lists\<close>

lemma sorted_last_max:
  "sorted (map f xs) \<Longrightarrow> xs \<noteq> [] \<Longrightarrow> x \<in> set xs \<Longrightarrow> f x \<le> f (last xs)"
  by (induction xs) (auto split: if_splits)

lemma last_filter_top:
  "xs \<noteq> [] \<Longrightarrow> P (last xs) \<Longrightarrow> last (filter P xs) = last xs"
  by (induction xs rule: rev_induct) auto

lemma py_sorted_mset: "mset (py_sorted key xs) = mset xs"
  by (simp add: py_sorted_def)

lemma py_sorted_set: "set (py_sorted key xs) = set xs"
  by (simp add: py_sorted_def)

lemma py_sorted_sorted: "sorted (map key (py_sorted key xs))"
  by (simp add: py_sorted_def)

lemma py_sorted_stable:
  "filter (\<lambda>y. key y = k) (py_sorted key xs) = filter (\<lambda>y. key y = k) xs"
  by (simp add: py_sorted_def sort_key_stable)

subsection \<open>The last execution\<close>

text \<open>
  C3. The "Last tasks execution" column of a replica without executions is the empty
  string. Otherwise it is \<open><id> <status>\<close> of an execution of the replica whose creation
  timestamp is the maximum; when several executions share that timestamp it is the last
  of them in the order of the input.
\<close>

theorem format_last_execution_max:
  fixes obj :: "('t::linorder) replica"
  shows "(executions obj = [] \<longrightarrow> ReplicaFormatter_format_last_execution obj = [])
   \<and> (executions obj \<noteq> [] \<longrightarrow>
        (\<exists>e \<in> set (executions obj).
           (\<forall>e' \<in> set (executions obj). exec_created_at e' \<le> exec_created_at e)
         \<and> e = last (filter (\<lambda>y. exec_created_at y = exec_created_at e) (executions obj))
         \<and> ReplicaFormatter_format_last_execution obj = exec_id e @ '' '' @ status e))"
proof (cases "executions obj = []")
  case True
  then show ?thesis by (simp add: ReplicaFormatter_format_last_execution_def)
next
  case False
  let ?xs = "executions obj"
  let ?ys = "py_sorted exec_created_at ?xs"
  let ?e = "last ?ys"
  have srt: "sorted (map exec_created_at ?ys)" by (rule py_sorted_sorted)
  have st: "set ?ys = set ?xs" by (rule py_sorted_set)
  have ne: "?ys \<noteq> []" using False st by (metis set_empty)
  have mem: "?e \<in> set ?xs" using ne st last_in_set by blast
  have mx: "\<forall>e' \<in> set ?xs. exec_created_at e' \<le> exec_created_at ?e"
    using sorted_last_max [OF srt ne] st by blast
  have "last (filter (\<lambda>y. exec_created_at y = exec_created_at ?e) ?ys) = ?e"
    using last_filter_top [OF ne, of "\<lambda>y. exec_created_at y = exec_created_at ?e"] by simp
  then have stab: "?e = last (filter (\<lambda>y. exec_created_at y = exec_created_at ?e) ?xs)"
    by (simp add: py_sorted_stable)
  have res: "ReplicaFormatter_format_last_execution obj = exec_id ?e @ '' '' @ status ?e"
    using False by (simp add: ReplicaFormatter_format_last_execution_def format_execution_def)
  show ?thesis using False mem mx stab res by blast
qed

theorem format_last_execution_max_witness:
  "executions replica_three \<noteq> []
   \<and> ReplicaFormatter_format_last_execution replica_three = ''e3 RUNNING''
   \<and> executions replica_none = []
   \<and> ReplicaFormatter_format_last_execution replica_none = []"
  using format_last_execution_max [of replica_three] format_last_execution_max [of replica_none]
  by (simp add: sample_defs ReplicaFormatter_format_last_execution_def py_sorted_def
      format_execution_def)

lemma format_last_execution_tie:
  "ReplicaFormatter_format_last_execution replica_tie = ''e1b CANCELED''"
  by (simp add: sample_defs ReplicaFormatter_format_last_execution_def py_sorted_def
      format_execution_def)

subsection \<open>The sorted list of the list view\<close>

text \<open>
  C4. The list that \<open>_get_sorted_list\<close> returns holds exactly the replicas of the input,
  each as often as the input does (so the two lists have the same length), in
  non-decreasing order of creation timestamp, and the replicas that share a timestamp
  stand in the order they had in the input.
\<close>

theorem get_sorted_list_stable_sort:
  fixes obj_list :: "('t::linorder) replica list"
  shows "mset (ReplicaFormatter_get_sorted_list obj_list) = mset obj_list
   \<and> length (ReplicaFormatter_get_sorted_list obj_list) = length obj_list
   \<and> sorted (map created_at (ReplicaFormatter_get_sorted_list obj_list))
   \<and> (\<forall>k. filter (\<lambda>obj. created_at obj = k) (ReplicaFormatter_get_sorted_list obj_list)
          = filter (\<lambda>obj. created_at obj = k) obj_list)"
proof -
  have "length (py_sorted created_at obj_list) = length obj_list"
    by (simp add: py_sorted_def)
  then show ?thesis
    unfolding ReplicaFormatter_get_sorted_list_def
    by (simp add: py_sorted_mset py_sorted_sorted py_sorted_stable)
qed

lemma get_sorted_list_example:
  "ReplicaFormatter_get_sorted_list [replica_three, replica_tie, replica_none]
     = [replica_tie, replica_none, replica_three]"
  by (simp add: sample_defs ReplicaFormatter_get_sorted_list_def py_sorted_def)

subsection \<open>The detail view\<close>

text \<open>
  C6. The execution history is the join, by the line separator, of \<open><id> <status>\<close> for
  every execution of the input, each once, in non-decreasing order of creation timestamp
  (executions with the same timestamp in their input order).
\<close>

theorem format_executions_sorted_joined:
  fixes execs :: "('t::linorder) execution list"
  shows "\<exists>ys. mset ys = mset execs
      \<and> sorted (map exec_created_at ys)
      \<and> (\<forall>k. filter (\<lambda>e. exec_created_at e = k) ys = filter (\<lambda>e. exec_created_at e = k) execs)
      \<and> ReplicaDetailFormatter_format_executions linesep execs
          = join linesep (map (\<lambda>e. exec_id e @ '' '' @ status e) ys)"
proof -
  let ?ys = "py_sorted exec_created_at execs"
  have "format_execution = (\<lambda>e::'t execution. exec_id e @ '' '' @ status e)"
    by (rule ext) (simp add: format_execution_def)
  then have "ReplicaDetailFormatter_format_executions linesep execs
          = join linesep (map (\<lambda>e. exec_id e @ '' '' @ status e) ?ys)"
    by (simp add: ReplicaDetailFormatter_format_executions_def)
  then show ?thesis
    using py_sorted_mset [of exec_created_at execs] py_sorted_sorted [of exec_created_at execs]
      py_sorted_stable [of exec_created_at _ execs]
    by blast
qed

lemma format_executions_example:
  "ReplicaDetailFormatter_format_executions [CHR 0x0A] [ex3, ex1, ex1b, ex2]
     = ''e1 COMPLETED'' @ [CHR 0x0A] @ ''e1b CANCELED'' @ [CHR 0x0A] @ ''e2 ERROR''
       @ [CHR 0x0A] @ ''e3 RUNNING''"
  by (simp add: sample_defs ReplicaDetailFormatter_format_executions_def py_sorted_def
      format_execution_def)

text \<open>
  C9. The instances field of the detail view is the join, by the line separator, of the
  instance identifiers of the replica, each as often as the replica lists it, in
  non-decreasing lexicographic order of their character codes (the order of Python's
  strings, in which an upper-case letter precedes every lower-case one).
\<close>

theorem format_instances_sorted_joined:
  "\<exists>ys. mset ys = mset (instances obj)
      \<and> sorted ys
      \<and> ReplicaDetailFormatter_format_instances linesep obj = join linesep ys"
proof -
  let ?ys = "py_sorted (\<lambda>s. s) (instances obj)"
  have "sorted ?ys" using py_sorted_sorted [of "\<lambda>s. s" "instances obj"] by simp
  moreover have "mset ?ys = mset (instances obj)" by (rule py_sorted_mset)
  moreover have "ReplicaDetailFormatter_format_instances linesep obj = join linesep ?ys"
    by (simp add: ReplicaDetailFormatter_format_instances_def)
  ultimately show ?thesis by blast
qed

lemma format_instances_example:
  "ReplicaDetailFormatter_format_instances [CHR 0x0A] replica_three
     = ''VM-c'' @ [CHR 0x0A] @ ''vm-a'' @ [CHR 0x0A] @ ''vm-b''"
  by (simp add: sample_defs ReplicaDetailFormatter_format_instances_def py_sorted_def)

section \<open>Properties of the endpoint samples\<close>

subsection \<open>Helper facts on the sample collaborators\<close>

lemma sample_last_stored_no_store:
  "\<forall>c\<in>set h. \<not> is_secrets_store c \<Longrightarrow> sample_last_stored ref h = None"
  by (induction h) (auto split: call.splits)

lemma sample_last_stored_append:
  "sample_last_stored ref (h @ t) =
     (case sample_last_stored ref t of Some p \<Rightarrow> Some p | None \<Rightarrow> sample_last_stored ref h)"
  by (induction h) (auto split: option.splits call.splits)

lemma sample_barbican_faithful:
  "\<forall>nm payload ct h href h'.
      secrets_store sample_barbican nm payload ct h = Inr href
      \<and> (\<forall>c\<in>set h'. \<not> is_secrets_store c)
      \<longrightarrow> secrets_payload sample_barbican (PStr href) (h @ Secrets_store nm payload ct # h')
            = Inr payload"
  by (auto simp: sample_barbican_def sample_last_stored_append sample_last_stored_no_store)

lemma sample_providers:
  "providers_list sample_coriolis [] = Inr [(''oci'', PDict []), (''openstack'', PDict [])]"
  by (simp add: sample_coriolis_def)

lemma sample_created_eq:
  "sample_created =
     (Inr sample_endpoint,
      [Providers_list,
       Secrets_store ''Coriolis Endpoint Coriolis Testing Endpoint'' sample_payload
         ''application/json'',
       Endpoints_create ''Coriolis Testing Endpoint'' ''oci''
         (PDict [(''secret_ref'', sample_secret_ref)]) ''Created by Coriolis sample scripts''])"
  by (simp add: sample_created_def create_endpoint_def store_barbican_secret_for_coriolis_def
      sample_coriolis_def sample_barbican_def sample_dumps_def sample_endpoint_def
      sample_secret_ref_def Let_def)

subsection \<open>Creating an endpoint\<close>

text \<open>
  C2. When the platform type is among the providers that the service lists:
  without a vault handle, \<open>create_endpoint\<close> makes the create call with the connection
  info it was given; with a vault handle, once the connection info is serialized and
  the vault has stored that text (under the label \<open>Coriolis Endpoint <name>\<close>, as
  \<open>application/json\<close>) and returned a reference, the create call is made with exactly
  \<open>{'secret_ref': <reference>}\<close> as its connection info. Whatever happens, no create call
  of a run with a vault handle carries anything but such a stub.
\<close>

theorem create_endpoint_secret_ref_stub:
  assumes "providers_list coriolis tr = Inr providers_dict"
    and "platform_type \<in> set (map fst providers_dict)"
  shows "create_endpoint coriolis dumps name platform_type connection_info None description tr
           = (endpoints_create coriolis name platform_type connection_info description
                (tr @ [Providers_list]),
              tr @ [Providers_list,
                    Endpoints_create name platform_type connection_info description])
   \<and> (\<forall>payload href.
         dumps connection_info = Inr payload \<and>
         secrets_store barbican (''Coriolis Endpoint '' @ name) payload ''application/json''
           (tr @ [Providers_list]) = Inr href
         \<longrightarrow> create_endpoint coriolis dumps name platform_type connection_info (Some barbican)
               description tr
           = (endpoints_create coriolis name platform_type (PDict [(''secret_ref'', PStr href)])
                description
                (tr @ [Providers_list,
                       Secrets_store (''Coriolis Endpoint '' @ name) payload ''application/json'']),
              tr @ [Providers_list,
                    Secrets_store (''Coriolis Endpoint '' @ name) payload ''application/json'',
                    Endpoints_create name platform_type (PDict [(''secret_ref'', PStr href)])
                      description]))
   \<and> (\<forall>n p ci d.
         Endpoints_create n p ci d
           \<in> set (drop (length tr)
                   (snd (create_endpoint coriolis dumps name platform_type connection_info
                           (Some barbican) description tr)))
         \<longrightarrow> (\<exists>href. ci = PDict [(''secret_ref'', PStr href)]))"
  using assms
  by (auto simp: create_endpoint_def store_barbican_secret_for_coriolis_def Let_def
      split: sum.splits prod.splits)

theorem create_endpoint_secret_ref_stub_witness:
  "''oci'' \<in> set (map fst [(''oci'', PDict []), (''openstack'', PDict [])])
   \<and> snd (create_endpoint sample_coriolis sample_dumps ''Coriolis Testing Endpoint'' ''oci''
            sample_connection_info (Some sample_barbican) ''Created by Coriolis sample scripts'' [])
       = [Providers_list,
          Secrets_store ''Coriolis Endpoint Coriolis Testing Endpoint'' sample_payload
            ''application/json'',
          Endpoints_create ''Coriolis Testing Endpoint'' ''oci''
            (PDict [(''secret_ref'', sample_secret_ref)]) ''Created by Coriolis sample scripts'']
   \<and> snd (create_endpoint sample_coriolis sample_dumps ''Plain'' ''oci''
            sample_connection_info None [] [])
       = [Providers_list, Endpoints_create ''Plain'' ''oci'' sample_connection_info []]"
proof -
  have m: "''oci'' \<in> set (map fst [(''oci'', PDict []), (''openstack'', PDict [])])"
    by simp
  have d: "sample_dumps sample_connection_info = Inr sample_payload"
    by (simp add: sample_dumps_def)
  have s: "secrets_store sample_barbican (''Coriolis Endpoint '' @ ''Coriolis Testing Endpoint'')
             sample_payload ''application/json'' ([] @ [Providers_list])
           = Inr (sample_href ''Coriolis Endpoint Coriolis Testing Endpoint'')"
    by (simp add: sample_barbican_def)
  note vault = create_endpoint_secret_ref_stub [OF sample_providers m,
      where dumps = sample_dumps and name = "''Coriolis Testing Endpoint''"
        and connection_info = sample_connection_info and barbican = sample_barbican
        and description = "''Created by Coriolis sample scripts''"]
  note plain = create_endpoint_secret_ref_stub [OF sample_providers m,
      where dumps = sample_dumps and name = "''Plain''"
        and connection_info = sample_connection_info and barbican = sample_barbican
        and description = "[]"]
  from vault d s have
    "snd (create_endpoint sample_coriolis sample_dumps ''Coriolis Testing Endpoint'' ''oci''
            sample_connection_info (Some sample_barbican) ''Created by Coriolis sample scripts'' [])
       = [Providers_list,
          Secrets_store ''Coriolis Endpoint Coriolis Testing Endpoint'' sample_payload
            ''application/json'',
          Endpoints_create ''Coriolis Testing Endpoint'' ''oci''
            (PDict [(''secret_ref'', sample_secret_ref)]) ''Created by Coriolis sample scripts'']"
    by (simp add: sample_secret_ref_def)
  moreover from plain have
    "snd (create_endpoint sample_coriolis sample_dumps ''Plain'' ''oci''
            sample_connection_info None [] [])
       = [Providers_list, Endpoints_create ''Plain'' ''oci'' sample_connection_info []]"
    by simp
  ultimately show ?thesis using m by blast
qed

text \<open>
  C10. When the service lists its providers and the platform type is not among them,
  \<open>create_endpoint\<close> raises \<open>ValueError\<close> (naming the providers listed), with or without
  a vault handle, and the only call it has made is the listing of the providers: no
  secret is stored and no endpoint is created.
\<close>

theorem create_endpoint_unknown_provider:
  assumes "providers_list coriolis tr = Inr providers_dict"
    and "platform_type \<notin> set (map fst providers_dict)"
  shows "create_endpoint coriolis dumps name platform_type connection_info barbican description tr
           = (Inl (ValueError (map fst providers_dict)), tr @ [Providers_list])"
  using assms by (simp add: create_endpoint_def Let_def)

theorem create_endpoint_unknown_provider_witness:
  "''vmware'' \<notin> set (map fst [(''oci'', PDict []), (''openstack'', PDict [])])
   \<and> create_endpoint sample_coriolis sample_dumps ''Coriolis Testing Endpoint'' ''vmware''
        sample_connection_info (Some sample_barbican) ''Created by Coriolis sample scripts'' []
       = (Inl (ValueError [''oci'', ''openstack'']), [Providers_list])"
proof -
  have m: "''vmware'' \<notin> set (map fst [(''oci'', PDict []), (''openstack'', PDict [])])"
    by simp
  show ?thesis
    using m create_endpoint_unknown_provider [OF sample_providers m,
      where dumps = sample_dumps and name = "''Coriolis Testing Endpoint''"
        and connection_info = sample_connection_info and barbican = "Some sample_barbican"
        and description = "''Created by Coriolis sample scripts''"]
    by simp
qed

subsection \<open>Reading the connection info back\<close>

text \<open>
  C7. When the service returns the endpoint and its connection info is a JSON object:
  if the object has no key \<open>secret_ref\<close>, \<open>get_endpoint_connection_info\<close> returns it as
  it is and asks the vault nothing; if it has, then with a vault handle the result is
  the payload that the vault returns for that reference, decoded by \<open>json.loads\<close> (an
  error of the vault or of the decoder is the result).
\<close>

theorem get_endpoint_connection_info_cases:
  assumes "endpoints_get coriolis endpoint tr = Inr ep"
    and "dict_get ep ''connection_info'' = PDict kvs"
  shows "(''secret_ref'' \<notin> set (map fst kvs) \<longrightarrow>
            get_endpoint_connection_info coriolis barbican loads endpoint tr
              = (Inr (PDict kvs), tr @ [Endpoints_get endpoint]))
   \<and> (\<forall>secret_ref b. map_of kvs ''secret_ref'' = Some secret_ref \<and> barbican = Some b \<longrightarrow>
            get_endpoint_connection_info coriolis barbican loads endpoint tr
              = ((case secrets_payload b secret_ref (tr @ [Endpoints_get endpoint]) of
                    Inl e \<Rightarrow> Inl e
                  | Inr payload \<Rightarrow> loads payload),
                 tr @ [Endpoints_get endpoint, Secrets_get secret_ref]))"
  using assms
  by (auto simp: get_endpoint_connection_info_def Let_def split: sum.splits
      dest: map_of_SomeD intro: rev_image_eqI)

theorem get_endpoint_connection_info_cases_witness:
  "get_endpoint_connection_info sample_coriolis None sample_loads plain_endpoint []
     = (Inr sample_connection_info, [Endpoints_get plain_endpoint])
   \<and> get_endpoint_connection_info sample_coriolis (Some sample_barbican) sample_loads
       sample_endpoint (snd sample_created)
     = (Inr sample_connection_info,
        snd sample_created @ [Endpoints_get sample_endpoint, Secrets_get sample_secret_ref])"
proof -
  have g1: "endpoints_get sample_coriolis plain_endpoint [] = Inr plain_endpoint"
    by (simp add: sample_coriolis_def)
  have c1: "dict_get plain_endpoint ''connection_info''
              = PDict [(''region'', PStr ''eu-frankfurt-1''), (''user'', PStr ''ocid1.user.oc1'')]"
    by (simp add: dict_get_def plain_endpoint_def sample_connection_info_def)
  have g2: "endpoints_get sample_coriolis sample_endpoint (snd sample_created) = Inr sample_endpoint"
    by (simp add: sample_coriolis_def)
  have c2: "dict_get sample_endpoint ''connection_info'' = PDict [(''secret_ref'', sample_secret_ref)]"
    by (simp add: dict_get_def sample_endpoint_def)
  have p: "secrets_payload sample_barbican sample_secret_ref
             (snd sample_created @ [Endpoints_get sample_endpoint]) = Inr sample_payload"
    by (simp add: sample_created_eq sample_barbican_def sample_secret_ref_def)
  have l: "sample_loads sample_payload = Inr sample_connection_info"
    by (simp add: sample_loads_def)
  from get_endpoint_connection_info_cases [OF g1 c1, of None sample_loads]
  have "get_endpoint_connection_info sample_coriolis None sample_loads plain_endpoint []
     = (Inr sample_connection_info, [Endpoints_get plain_endpoint])"
    by (simp add: sample_connection_info_def)
  moreover from get_endpoint_connection_info_cases [OF g2 c2, of "Some sample_barbican" sample_loads]
  have "get_endpoint_connection_info sample_coriolis (Some sample_barbican) sample_loads
       sample_endpoint (snd sample_created)
     = (Inr sample_connection_info,
        snd sample_created @ [Endpoints_get sample_endpoint, Secrets_get sample_secret_ref])"
    using p l by simp
  ultimately show ?thesis by blast
qed

text \<open>
  C5, as the code has it. Round trip. Let \<open>create_endpoint\<close>, called with a vault
  handle, return an endpoint. Suppose that \<^verbatim>\<open>json.loads\<close> gives the connection info
  back from the text that \<^verbatim>\<open>json.dumps\<close> writes for it, that the vault returns for a
  reference the payload stored under it as long as no other secret has been stored
  since, and that the service returns for a created endpoint the connection info it was
  created with. Then \<open>get_endpoint_connection_info\<close>, called next on that endpoint with
  the same vault, returns the original connection info.
\<close>

theorem vault_roundtrip:
  assumes created:
      "create_endpoint coriolis dumps name platform_type connection_info (Some barbican)
         description tr = (Inr endpoint, tr')"
    and json: "\<forall>payload. dumps connection_info = Inr payload
                 \<longrightarrow> loads payload = Inr connection_info"
    and vault: "\<forall>nm payload ct h href h'.
        secrets_store barbican nm payload ct h = Inr href
        \<and> (\<forall>c\<in>set h'. \<not> is_secrets_store c)
        \<longrightarrow> secrets_payload barbican (PStr href) (h @ Secrets_store nm payload ct # h')
              = Inr payload"
    and server: "\<forall>n p ci d h e.
        endpoints_create coriolis n p ci d h = Inr e
        \<longrightarrow> (\<exists>ep. endpoints_get coriolis e (h @ [Endpoints_create n p ci d]) = Inr ep
                  \<and> dict_get ep ''connection_info'' = ci)"
  shows "fst (get_endpoint_connection_info coriolis (Some barbican) loads endpoint tr')
           = Inr connection_info"
proof -
  let ?nm = "''Coriolis Endpoint '' @ name"
  let ?ct = "''application/json''"
  let ?tr1 = "tr @ [Providers_list]"
  obtain payload href where
    d: "dumps connection_info = Inr payload" and
    s: "secrets_store barbican ?nm payload ?ct ?tr1 = Inr href" and
    c: "endpoints_create coriolis name platform_type (PDict [(''secret_ref'', PStr href)])
          description (?tr1 @ [Secrets_store ?nm payload ?ct]) = Inr endpoint" and
    t: "tr' = ?tr1 @ [Secrets_store ?nm payload ?ct]
              @ [Endpoints_create name platform_type (PDict [(''secret_ref'', PStr href)])
                   description]"
    using created
    by (auto simp: create_endpoint_def store_barbican_secret_for_coriolis_def Let_def
        split: sum.splits if_splits)
  let ?stub = "PDict [(''secret_ref'', PStr href)]"
  let ?cr = "Endpoints_create name platform_type ?stub description"
  from server c obtain ep where
    g: "endpoints_get coriolis endpoint ((?tr1 @ [Secrets_store ?nm payload ?ct]) @ [?cr]) = Inr ep"
    and ci: "dict_get ep ''connection_info'' = ?stub"
    by blast
  have g': "endpoints_get coriolis endpoint tr' = Inr ep"
    using g t by simp
  have "\<forall>c\<in>set [?cr, Endpoints_get endpoint]. \<not> is_secrets_store c" by simp
  with vault s have
    "secrets_payload barbican (PStr href)
       (?tr1 @ Secrets_store ?nm payload ?ct # [?cr, Endpoints_get endpoint]) = Inr payload"
    by blast
  then have p: "secrets_payload barbican (PStr href) (tr' @ [Endpoints_get endpoint]) = Inr payload"
    using t by simp
  have l: "loads payload = Inr connection_info" using json d by blast
  show ?thesis
    using g' ci p l by (simp add: get_endpoint_connection_info_def Let_def)
qed

theorem vault_roundtrip_witness:
  "fst sample_created = Inr sample_endpoint
   \<and> fst (get_endpoint_connection_info sample_coriolis (Some sample_barbican) sample_loads
           sample_endpoint (snd sample_created)) = Inr sample_connection_info"
proof -
  have created: "create_endpoint sample_coriolis sample_dumps ''Coriolis Testing Endpoint'' ''oci''
       sample_connection_info (Some sample_barbican) ''Created by Coriolis sample scripts'' []
     = (Inr sample_endpoint, snd sample_created)"
    using sample_created_eq by (simp add: sample_created_def)
  have json: "\<forall>payload. sample_dumps sample_connection_info = Inr payload
                 \<longrightarrow> sample_loads payload = Inr sample_connection_info"
    by (simp add: sample_dumps_def sample_loads_def)
  have server: "\<forall>n p ci d h e.
        endpoints_create sample_coriolis n p ci d h = Inr e
        \<longrightarrow> (\<exists>ep. endpoints_get sample_coriolis e (h @ [Endpoints_create n p ci d]) = Inr ep
                  \<and> dict_get ep ''connection_info'' = ci)"
    by (auto simp: sample_coriolis_def dict_get_def)
  have first: "fst sample_created = Inr sample_endpoint"
    by (simp add: sample_created_eq)
  show ?thesis
    using vault_roundtrip [OF created json sample_barbican_faithful server] first
    by blast
qed

text \<open>
  C5, as the specification has it, fails: that the vault returns what was stored is
  not enough. A connection info that holds a tuple is JSON-serializable; the vault
  stores its text and returns that very text, and what comes back is the connection
  info with a list in the place of the tuple, which is another value.
\<close>

theorem vault_roundtrip_counterexample:
  "sample_dumps tuple_connection_info = Inr tuple_payload
   \<and> snd tuple_created
       = [Providers_list,
          Secrets_store ''Coriolis Endpoint Coriolis Testing Endpoint'' tuple_payload
            ''application/json'',
          Endpoints_create ''Coriolis Testing Endpoint'' ''oci''
            (PDict [(''secret_ref'', sample_secret_ref)]) ''Created by Coriolis sample scripts'']
   \<and> fst tuple_created = Inr sample_endpoint
   \<and> secrets_payload sample_barbican sample_secret_ref
         (snd tuple_created @ [Endpoints_get sample_endpoint]) = Inr tuple_payload
   \<and> get_endpoint_connection_info sample_coriolis (Some sample_barbican) sample_loads
         sample_endpoint (snd tuple_created)
       = (Inr tuple_decoded,
          snd tuple_created @ [Endpoints_get sample_endpoint, Secrets_get sample_secret_ref])
   \<and> tuple_decoded \<noteq> tuple_connection_info"
proof -
  have d: "sample_dumps tuple_connection_info = Inr tuple_payload"
    by (simp add: sample_dumps_def tuple_connection_info_def sample_connection_info_def)
  have c: "tuple_created
       = (Inr sample_endpoint,
          [Providers_list,
           Secrets_store ''Coriolis Endpoint Coriolis Testing Endpoint'' tuple_payload
             ''application/json'',
           Endpoints_create ''Coriolis Testing Endpoint'' ''oci''
             (PDict [(''secret_ref'', sample_secret_ref)]) ''Created by Coriolis sample scripts''])"
    using d
    by (simp add: tuple_created_def create_endpoint_def store_barbican_secret_for_coriolis_def
        sample_coriolis_def sample_barbican_def sample_endpoint_def sample_secret_ref_def Let_def)
  have p: "secrets_payload sample_barbican sample_secret_ref
         (snd tuple_created @ [Endpoints_get sample_endpoint]) = Inr tuple_payload"
    by (simp add: c sample_barbican_def sample_secret_ref_def)
  have l: "sample_loads tuple_payload = Inr tuple_decoded"
    by (simp add: sample_loads_def sample_payload_def tuple_payload_def)
  have g: "get_endpoint_connection_info sample_coriolis (Some sample_barbican) sample_loads
         sample_endpoint (snd tuple_created)
       = (Inr tuple_decoded,
          snd tuple_created @ [Endpoints_get sample_endpoint, Secrets_get sample_secret_ref])"
    using p l
    by (simp add: get_endpoint_connection_info_def sample_coriolis_def dict_get_def
        sample_endpoint_def Let_def)
  have n: "tuple_decoded \<noteq> tuple_connection_info"
    by (simp add: tuple_decoded_def tuple_connection_info_def)
  have c1: "snd tuple_created
       = [Providers_list,
          Secrets_store ''Coriolis Endpoint Coriolis Testing Endpoint'' tuple_payload
            ''application/json'',
          Endpoints_create ''Coriolis Testing Endpoint'' ''oci''
            (PDict [(''secret_ref'', sample_secret_ref)]) ''Created by Coriolis sample scripts'']"
    by (simp add: c)
  have c2: "fst tuple_created = Inr sample_endpoint"
    by (simp add: c)
  show ?thesis using d c1 c2 p g n by blast
qed

subsection \<open>Validating an endpoint\<close>

text \<open>
  C8. When \<open>validate_connection\<close> returns a pair of a truth value and a message:
  without \<open>raise_on_error\<close>, \<open>validate_endpoint\<close> returns that pair; with it, the pair
  is returned when the truth value is true, and when it is false an exception is raised
  whose text is \<open>Endpoint validation failed:\<close> followed by the message. So with
  \<open>raise_on_error\<close> an error is raised exactly when the validation result is false.
\<close>

theorem validate_endpoint_pair_or_raise:
  assumes "endpoints_validate_connection coriolis endpoint tr = Inr (is_valid, error_msg)"
  shows "validate_endpoint coriolis endpoint False tr
           = (Inr (is_valid, error_msg), tr @ [Endpoints_validate_connection endpoint])
   \<and> (is_valid \<longrightarrow> validate_endpoint coriolis endpoint True tr
           = (Inr (is_valid, error_msg), tr @ [Endpoints_validate_connection endpoint]))
   \<and> (\<not> is_valid \<longrightarrow> validate_endpoint coriolis endpoint True tr
           = (Inl (Exception (''Endpoint validation failed: '' @ py_str error_msg)),
              tr @ [Endpoints_validate_connection endpoint]))
   \<and> isl (fst (validate_endpoint coriolis endpoint True tr)) = (\<not> is_valid)"
  using assms by (simp add: validate_endpoint_def Let_def)

theorem validate_endpoint_pair_or_raise_witness:
  "validate_endpoint sample_coriolis sample_endpoint True []
     = (Inr (True, None), [Endpoints_validate_connection sample_endpoint])
   \<and> validate_endpoint sample_coriolis plain_endpoint True []
     = (Inl (Exception ''Endpoint validation failed: unreachable''),
        [Endpoints_validate_connection plain_endpoint])
   \<and> validate_endpoint sample_coriolis plain_endpoint False []
     = (Inr (False, Some ''unreachable''), [Endpoints_validate_connection plain_endpoint])"
proof -
  have v1: "endpoints_validate_connection sample_coriolis sample_endpoint [] = Inr (True, None)"
    by (simp add: sample_coriolis_def dict_get_def sample_endpoint_def)
  have v2: "endpoints_validate_connection sample_coriolis plain_endpoint []
              = Inr (False, Some ''unreachable'')"
    by (simp add: sample_coriolis_def dict_get_def plain_endpoint_def)
  show ?thesis
    using validate_endpoint_pair_or_raise [OF v1] validate_endpoint_pair_or_raise [OF v2]
    by (simp add: py_str_def)
qed

section \<open>Properties of the replica update\<close>

text \<open>
  C1, as the code has it. When \<open>take_action\<close> gets as far as the update call, the
  payload of that call has these items and no others, each key at most once:
  \<open>destination_environment\<close>, \<open>source_environment\<close> and \<open>network_map\<close>, each exactly
  when the option was given a non-empty text that \<open>json.loads\<close> decodes to a value that
  Python takes for true (the item is that value); \<open>storage_mappings\<close> exactly when the
  dict built from the arguments is taken for true (not empty); \<open>notes\<close> exactly when
  the option was given a non-empty text. In particular the payload is empty when none
  of the four options is given and the storage mappings dict is empty.
\<close>

theorem update_payload_truthy_fields:
  assumes "UpdateReplica_updated_properties loads gsm args = Inr up"
  shows "snd (UpdateReplica_take_action loads gsm replicas_update get_formatted_entity args tr)
           = tr @ [Replicas_update (arg_id args) (PDict up) (force args)]
   \<and> (\<forall>v. ((''destination_environment'', v) \<in> set up)
          = (\<exists>s. destination_environment args = Some s \<and> s \<noteq> [] \<and> loads s = Inr v \<and> truthy v))
   \<and> (\<forall>v. ((''source_environment'', v) \<in> set up)
          = (\<exists>s. source_environment args = Some s \<and> s \<noteq> [] \<and> loads s = Inr v \<and> truthy v))
   \<and> (\<forall>v. ((''network_map'', v) \<in> set up)
          = (\<exists>s. network_map args = Some s \<and> s \<noteq> [] \<and> loads s = Inr v \<and> truthy v))
   \<and> (\<forall>v. ((''storage_mappings'', v) \<in> set up) = (gsm args = Inr v \<and> truthy v))
   \<and> (\<forall>v. ((''notes'', v) \<in> set up) = (\<exists>s. arg_notes args = Some s \<and> s \<noteq> [] \<and> v = PStr s))
   \<and> set (map fst up) \<subseteq> {''destination_environment'', ''source_environment'',
         ''storage_mappings'', ''network_map'', ''notes''}
   \<and> distinct (map fst up)
   \<and> (destination_environment args = None \<and> source_environment args = None
        \<and> network_map args = None \<and> arg_notes args = None
        \<and> (\<exists>sm. gsm args = Inr sm \<and> \<not> truthy sm)
       \<longrightarrow> up = [])"
proof -
  have 1: "snd (UpdateReplica_take_action loads gsm replicas_update get_formatted_entity args tr)
           = tr @ [Replicas_update (arg_id args) (PDict up) (force args)]"
    using assms by (simp add: UpdateReplica_take_action_def Let_def split: sum.splits)
  obtain de se nm sm where
    de: "loads_if_set loads (destination_environment args) = Inr de" and
    se: "loads_if_set loads (source_environment args) = Inr se" and
    nm: "loads_if_set loads (network_map args) = Inr nm" and
    sm: "gsm args = Inr sm" and
    up: "up = (if truthy de then [(''destination_environment'', de)] else [])
            @ (if truthy se then [(''source_environment'', se)] else [])
            @ (if truthy sm then [(''storage_mappings'', sm)] else [])
            @ (if truthy nm then [(''network_map'', nm)] else [])
            @ (case arg_notes args of None \<Rightarrow> []
               | Some s \<Rightarrow> if s \<noteq> [] then [(''notes'', PStr s)] else [])"
    using assms
    by (auto simp: UpdateReplica_updated_properties_def Let_def
        split: sum.splits option.splits if_splits)
  have tde: "\<And>v. (truthy de \<and> v = de)
       = (\<exists>s. destination_environment args = Some s \<and> s \<noteq> [] \<and> loads s = Inr v \<and> truthy v)"
    using de by (auto simp: loads_if_set_def split: option.splits if_splits)
  have tse: "\<And>v. (truthy se \<and> v = se)
       = (\<exists>s. source_environment args = Some s \<and> s \<noteq> [] \<and> loads s = Inr v \<and> truthy v)"
    using se by (auto simp: loads_if_set_def split: option.splits if_splits)
  have tnm: "\<And>v. (truthy nm \<and> v = nm)
       = (\<exists>s. network_map args = Some s \<and> s \<noteq> [] \<and> loads s = Inr v \<and> truthy v)"
    using nm by (auto simp: loads_if_set_def split: option.splits if_splits)
  have 2: "\<forall>v. ((''destination_environment'', v) \<in> set up)
          = (\<exists>s. destination_environment args = Some s \<and> s \<noteq> [] \<and> loads s = Inr v \<and> truthy v)"
    unfolding tde [symmetric] up by (auto split: option.splits)
  have 3: "\<forall>v. ((''source_environment'', v) \<in> set up)
          = (\<exists>s. source_environment args = Some s \<and> s \<noteq> [] \<and> loads s = Inr v \<and> truthy v)"
    unfolding tse [symmetric] up by (auto split: option.splits)
  have 4: "\<forall>v. ((''network_map'', v) \<in> set up)
          = (\<exists>s. network_map args = Some s \<and> s \<noteq> [] \<and> loads s = Inr v \<and> truthy v)"
    unfolding tnm [symmetric] up by (auto split: option.splits)
  have 5: "\<forall>v. ((''storage_mappings'', v) \<in> set up) = (gsm args = Inr v \<and> truthy v)"
    unfolding up using sm by (auto split: option.splits)
  have 6: "\<forall>v. ((''notes'', v) \<in> set up) = (\<exists>s. arg_notes args = Some s \<and> s \<noteq> [] \<and> v = PStr s)"
    unfolding up by (auto split: option.splits)
  have 7: "set (map fst up) \<subseteq> {''destination_environment'', ''source_environment'',
         ''storage_mappings'', ''network_map'', ''notes''}"
    unfolding up by (auto split: option.splits)
  have 8: "distinct (map fst up)"
    unfolding up by (auto split: option.splits)
  have 9: "destination_environment args = None \<and> source_environment args = None
        \<and> network_map args = None \<and> arg_notes args = None
        \<and> (\<exists>sm. gsm args = Inr sm \<and> \<not> truthy sm)
       \<longrightarrow> up = []"
    using de se nm sm unfolding up by (auto simp: loads_if_set_def)
  show ?thesis using 1 2 3 4 5 6 7 8 9 by blast
qed

theorem update_payload_truthy_fields_witness:
  "UpdateReplica_updated_properties sample_loads no_storage_mappings sample_update_args
     = Inr [(''destination_environment'', PList [PInt 1, PInt 2]), (''notes'', PStr ''resized'')]
   \<and> snd (UpdateReplica_take_action sample_loads no_storage_mappings sample_replicas_update
            sample_get_formatted_entity sample_update_args [])
     = [Replicas_update ''r1''
          (PDict [(''destination_environment'', PList [PInt 1, PInt 2]),
                  (''notes'', PStr ''resized'')]) True]"
proof -
  have up: "UpdateReplica_updated_properties sample_loads no_storage_mappings sample_update_args
     = Inr [(''destination_environment'', PList [PInt 1, PInt 2]), (''notes'', PStr ''resized'')]"
    by (simp add: UpdateReplica_updated_properties_def loads_if_set_def sample_loads_def
        sample_payload_def tuple_payload_def no_storage_mappings_def sample_update_args_def
        Let_def)
  from update_payload_truthy_fields [OF up, of sample_replicas_update
      sample_get_formatted_entity "[]"]
  have "snd (UpdateReplica_take_action sample_loads no_storage_mappings sample_replicas_update
            sample_get_formatted_entity sample_update_args [])
     = [Replicas_update ''r1''
          (PDict [(''destination_environment'', PList [PInt 1, PInt 2]),
                  (''notes'', PStr ''resized'')]) True]"
    by (simp add: sample_update_args_def)
  with up show ?thesis by blast
qed

text \<open>
  C1, as the specification has it, fails: an invocation that supplies
  \<open>--destination-environment '{}'\<close> and \<open>--notes ''\<close> sends the empty payload, so the
  two supplied fields are not in it.
\<close>

theorem update_payload_supplied_counterexample:
  "destination_environment falsy_update_args = Some ''{}''
   \<and> arg_notes falsy_update_args = Some []
   \<and> snd (UpdateReplica_take_action sample_loads no_storage_mappings sample_replicas_update
            sample_get_formatted_entity falsy_update_args [])
     = [Replicas_update ''r1'' (PDict []) False]"
  by (simp add: UpdateReplica_take_action_def UpdateReplica_updated_properties_def
      loads_if_set_def sample_loads_def sample_payload_def tuple_payload_def
      no_storage_mappings_def sample_replicas_update_def falsy_update_args_def Let_def)

end
